theory Spec2Isabelle
  imports Main
begin

section \<open>Python values and exceptions\<close>

text \<open>
  The exceptions the modelled code raises or lets escape. Only instances of Python's
  \<^verbatim>\<open>Exception\<close> class are modelled; \<^verbatim>\<open>AttributeError\<close> carries the type of the
  object and the attribute that was missing.
\<close>

datatype exn =
    ValueError string
  | TypeError string
  | KeyError string
  | AttributeError string string
  | StopIteration
  | ModelValidationErrors "(string \<times> string list) list"
  | OtherError string

text \<open>Configuration documents and dynamically typed arguments.\<close>

datatype pyval =
    PNone
  | PBool bool
  | PInt int
  | PStr string
  | PDict "(string \<times> pyval) list"

text \<open>\<^verbatim>\<open>isinstance(v, int)\<close>: \<^verbatim>\<open>bool\<close> is a subclass of \<^verbatim>\<open>int\<close>.\<close>

fun int_of :: "pyval \<Rightarrow> int option" where
  "int_of (PInt i) = Some i"
| "int_of (PBool b) = Some (if b then 1 else 0)"
| "int_of _ = None"


section \<open>Strings\<close>

text \<open>
  A Python string is modelled as a list of characters with code points below 256. The
  character classes are those of \<^verbatim>\<open>str.isspace\<close>, of the \<^verbatim>\<open>re\<close> module's
  \<^verbatim>\<open>\d\<close> and \<^verbatim>\<open>\w\<close> on \<^verbatim>\<open>str\<close> patterns, and of \<^verbatim>\<open>str.lower\<close>,
  restricted to that range.
\<close>

definition is_digit :: "char \<Rightarrow> bool" where
  "is_digit c = (c \<in> set ''0123456789'')"

definition is_space :: "char \<Rightarrow> bool" where
  "is_space c = (let n = (of_char c :: nat) in
     (9 \<le> n \<and> n \<le> 13) \<or> (28 \<le> n \<and> n \<le> 32) \<or> n = 133 \<or> n = 160)"

definition is_word :: "char \<Rightarrow> bool" where
  "is_word c = (let n = (of_char c :: nat) in
     (48 \<le> n \<and> n \<le> 57) \<or> (65 \<le> n \<and> n \<le> 90) \<or> n = 95 \<or> (97 \<le> n \<and> n \<le> 122)
     \<or> n = 170 \<or> n = 178 \<or> n = 179 \<or> n = 181 \<or> n = 185 \<or> n = 186
     \<or> (188 \<le> n \<and> n \<le> 190) \<or> (192 \<le> n \<and> n \<le> 214)
     \<or> (216 \<le> n \<and> n \<le> 246) \<or> (248 \<le> n \<and> n \<le> 255))"

definition lower_char :: "char \<Rightarrow> char" where
  "lower_char c = (let n = (of_char c :: nat) in
     if (65 \<le> n \<and> n \<le> 90) \<or> (192 \<le> n \<and> n \<le> 222 \<and> n \<noteq> 215)
     then char_of (n + 32) else c)"

definition lower :: "string \<Rightarrow> string" where
  "lower s = map lower_char s"

text \<open>\<^verbatim>\<open>str.strip()\<close>: leading and trailing whitespace removed.\<close>

definition strip :: "string \<Rightarrow> string" where
  "strip s = rev (dropWhile is_space (rev (dropWhile is_space s)))"

text \<open>\<^verbatim>\<open>str.startswith\<close> with a tuple of prefixes.\<close>

fun startswith :: "string \<Rightarrow> string \<Rightarrow> bool" where
  "startswith s [] = True"
| "startswith [] (p # ps) = False"
| "startswith (c # cs) (p # ps) = (c = p \<and> startswith cs ps)"


text \<open>The decimal text an f-string gives for an \<^verbatim>\<open>int\<close>.\<close>

definition digit_char :: "nat \<Rightarrow> char" where
  "digit_char n = ''0123456789'' ! n"

function digits_of :: "nat \<Rightarrow> string" where
  "digits_of n = (if n < 10 then [digit_char n] else digits_of (n div 10) @ [digit_char (n mod 10)])"
  by pat_completeness auto
termination
  by (relation "measure id") auto

declare digits_of.simps [simp del]

definition str_int :: "int \<Rightarrow> string" where
  "str_int i = (if i < 0 then CHR ''-'' # digits_of (nat (- i)) else digits_of (nat i))"

section \<open>Regular expressions of \<^verbatim>\<open>has_paging\<close>\<close>

text \<open>
  The fragment of the \<^verbatim>\<open>re\<close> syntax that the five paging patterns use: literal
  characters compared without regard to case (\<^verbatim>\<open>re.IGNORECASE\<close>), the classes
  \<^verbatim>\<open>\d\<close> and \<^verbatim>\<open>\s\<close>, the word boundary \<^verbatim>\<open>\b\<close>, sequence, alternative,
  \<^verbatim>\<open>?\<close> and \<^verbatim>\<open>*\<close>. A matcher state is the character before the current position
  (for \<^verbatim>\<open>\b\<close>) and the rest of the subject; \<open>rmatch\<close> lists every state a pattern
  can end in, so a pattern matches at a position iff the list is not empty.
\<close>

datatype cls = Digit | Space

datatype regex =
    Eps
  | Chr char
  | Cls cls
  | WordB
  | Seq regex regex
  | Alt regex regex
  | Opt regex
  | Star regex

type_synonym rstate = "char option \<times> string"

fun in_cls :: "cls \<Rightarrow> char \<Rightarrow> bool" where
  "in_cls Digit c = is_digit c"
| "in_cls Space c = is_space c"

definition at_boundary :: "char option \<Rightarrow> string \<Rightarrow> bool" where
  "at_boundary p s = ((case p of None \<Rightarrow> False | Some c \<Rightarrow> is_word c)
     \<noteq> (case s of [] \<Rightarrow> False | c # _ \<Rightarrow> is_word c))"

primrec star_iter :: "nat \<Rightarrow> (rstate \<Rightarrow> rstate list) \<Rightarrow> rstate \<Rightarrow> rstate list" where
  "star_iter 0 f st = [st]"
| "star_iter (Suc n) f st =
     concat (map (star_iter n f)
       (filter (\<lambda>st'. length (snd st') < length (snd st)) (f st))) @ [st]"

primrec rmatch :: "regex \<Rightarrow> rstate \<Rightarrow> rstate list" where
  "rmatch Eps st = [st]"
| "rmatch (Chr c) st = (case snd st of [] \<Rightarrow> []
     | x # xs \<Rightarrow> if lower_char x = lower_char c then [(Some x, xs)] else [])"
| "rmatch (Cls k) st = (case snd st of [] \<Rightarrow> []
     | x # xs \<Rightarrow> if in_cls k x then [(Some x, xs)] else [])"
| "rmatch WordB st = (if at_boundary (fst st) (snd st) then [st] else [])"
| "rmatch (Seq a b) st = concat (map (rmatch b) (rmatch a st))"
| "rmatch (Alt a b) st = rmatch a st @ rmatch b st"
| "rmatch (Opt a) st = rmatch a st @ [st]"
| "rmatch (Star a) st = star_iter (length (snd st)) (rmatch a) st"

text \<open>\<^verbatim>\<open>re.search\<close>: a match starting at any position of the subject.\<close>

fun search_from :: "regex \<Rightarrow> char option \<Rightarrow> string \<Rightarrow> bool" where
  "search_from r p [] = (rmatch r (p, []) \<noteq> [])"
| "search_from r p (c # cs) = (rmatch r (p, c # cs) \<noteq> [] \<or> search_from r (Some c) cs)"

definition re_search :: "regex \<Rightarrow> string \<Rightarrow> bool" where
  "re_search r s = search_from r None s"

definition lit :: "string \<Rightarrow> regex" where
  "lit s = foldr (\<lambda>c r. Seq (Chr c) r) s Eps"

definition many1 :: "regex \<Rightarrow> regex" where
  "many1 r = Seq r (Star r)"

definition seqs :: "regex list \<Rightarrow> regex" where
  "seqs rs = foldr Seq rs Eps"

text \<open>\<^verbatim>\<open>\bLIMIT\s+(\d+)\s*(?:OFFSET\s+(\d+))?\b\<close> (MySQL, and again for SQLite)\<close>

definition pat_limit_mysql :: regex where
  "pat_limit_mysql = seqs [WordB, lit ''LIMIT'', many1 (Cls Space), many1 (Cls Digit),
     Star (Cls Space),
     Opt (seqs [lit ''OFFSET'', many1 (Cls Space), many1 (Cls Digit)]), WordB]"

text \<open>\<^verbatim>\<open>\bLIMIT\s+(\d+)\b(?:\s+OFFSET\s+(\d+)\b)?\<close> (PostgreSQL)\<close>

definition pat_limit_pg :: regex where
  "pat_limit_pg = seqs [WordB, lit ''LIMIT'', many1 (Cls Space), many1 (Cls Digit), WordB,
     Opt (seqs [many1 (Cls Space), lit ''OFFSET'', many1 (Cls Space), many1 (Cls Digit), WordB])]"

text \<open>\<^verbatim>\<open>\bTOP\s+(\d+)\b(?:\s+OFFSET\s+(\d+)\b)?\<close> (SQL Server)\<close>

definition pat_top :: regex where
  "pat_top = seqs [WordB, lit ''TOP'', many1 (Cls Space), many1 (Cls Digit), WordB,
     Opt (seqs [many1 (Cls Space), lit ''OFFSET'', many1 (Cls Space), many1 (Cls Digit), WordB])]"

text \<open>\<^verbatim>\<open>\bROWNUM\s*\b(?:\s*\bBETWEEN\s*\d+\s*AND\s*\d+\b|\s*\b<=?\s*\d+\b)\<close> (Oracle)\<close>

definition pat_rownum :: regex where
  "pat_rownum = seqs [WordB, lit ''ROWNUM'', Star (Cls Space), WordB,
     Alt (seqs [Star (Cls Space), WordB, lit ''BETWEEN'', Star (Cls Space), many1 (Cls Digit),
                Star (Cls Space), lit ''AND'', Star (Cls Space), many1 (Cls Digit), WordB])
         (seqs [Star (Cls Space), WordB, Chr CHR ''<'', Opt (Chr CHR ''=''), Star (Cls Space),
                many1 (Cls Digit), WordB])]"

definition paging_patterns :: "regex list" where
  "paging_patterns = [pat_limit_mysql, pat_limit_pg, pat_top, pat_rownum, pat_limit_mysql]"

section \<open>\<^verbatim>\<open>database/db_utils.py\<close>\<close>

definition has_paging :: "string \<Rightarrow> bool" where
  "has_paging sql = list_ex (\<lambda>pattern. re_search pattern sql) paging_patterns"

definition is_data_manipulation_query :: "string \<Rightarrow> bool" where
  "is_data_manipulation_query statement =
     (let s = lower (strip statement)
      in startswith s ''insert'' \<or> startswith s ''update'' \<or> startswith s ''delete'')"

text \<open>
  A dictionary is an association list in insertion order; \<open>dict_set\<close> is
  \<^verbatim>\<open>d[k] = v\<close> and \<open>dict_of\<close> is \<^verbatim>\<open>dict(pairs)\<close>.
\<close>

fun dict_set :: "('k \<times> 'v) list \<Rightarrow> 'k \<Rightarrow> 'v \<Rightarrow> ('k \<times> 'v) list" where
  "dict_set [] k v = [(k, v)]"
| "dict_set ((k', v') # d) k v = (if k' = k then (k, v) # d else (k', v') # dict_set d k v)"

definition dict_of :: "('k \<times> 'v) list \<Rightarrow> ('k \<times> 'v) list" where
  "dict_of pairs = foldl (\<lambda>d (k, v). dict_set d k v) [] pairs"

text \<open>
  The \<^verbatim>\<open>params\<close> argument: \<^verbatim>\<open>None\<close>, a dict, or a tuple of key-value pairs. A
  sanitizer is a callable that may raise, or an object that is not callable; the
  \<^verbatim>\<open>sanitizers\<close> argument is \<^verbatim>\<open>None\<close>, one such object, or a list of them.
\<close>

datatype 'v params = ParamsNone | ParamsDict "(string \<times> 'v) list" | ParamsTuple "(string \<times> 'v) list"

datatype 'v callable = Fn "'v \<Rightarrow> exn + 'v" | NotCallable

datatype 'v sanitizers = SanNone | SanOne "'v callable" | SanList "'v callable list"

fun params_truthy :: "'v params \<Rightarrow> bool" where
  "params_truthy ParamsNone = False"
| "params_truthy (ParamsDict d) = (d \<noteq> [])"
| "params_truthy (ParamsTuple t) = (t \<noteq> [])"

fun sanitizers_truthy :: "'v sanitizers \<Rightarrow> bool" where
  "sanitizers_truthy SanNone = False"
| "sanitizers_truthy (SanOne f) = True"
| "sanitizers_truthy (SanList fs) = (fs \<noteq> [])"

fun is_callable :: "'v callable \<Rightarrow> bool" where
  "is_callable (Fn f) = True"
| "is_callable NotCallable = False"

fun call :: "'v callable \<Rightarrow> 'v \<Rightarrow> exn + 'v" where
  "call (Fn f) v = f v"
| "call NotCallable v = Inl (TypeError ''object is not callable'')"

fun call_each :: "'v callable list \<Rightarrow> 'v \<Rightarrow> exn + 'v" where
  "call_each [] v = Inr v"
| "call_each (f # fs) v = (case call f v of Inl e \<Rightarrow> Inl e | Inr v' \<Rightarrow> call_each fs v')"

fun apply_sanitizers :: "'v sanitizers \<Rightarrow> 'v \<Rightarrow> exn + 'v" where
  "apply_sanitizers (SanList fs) v = call_each fs v"
| "apply_sanitizers (SanOne f) v = call f v"
| "apply_sanitizers SanNone v = call NotCallable v"

fun sanitize_items ::
  "'v sanitizers \<Rightarrow> (string \<times> 'v) list \<Rightarrow> (string \<times> 'v) list \<Rightarrow> exn + (string \<times> 'v) list" where
  "sanitize_items sanitizers [] sanitized_params = Inr sanitized_params"
| "sanitize_items sanitizers ((key, v) # items) sanitized_params =
     (case apply_sanitizers sanitizers v of
        Inl e \<Rightarrow> Inl e
      | Inr v' \<Rightarrow> sanitize_items sanitizers items (dict_set sanitized_params key v'))"

definition sanitizers_callable :: "'v sanitizers \<Rightarrow> bool" where
  "sanitizers_callable sanitizers =
     (case sanitizers of
        SanList fs \<Rightarrow> list_all is_callable fs
      | SanOne f \<Rightarrow> is_callable f
      | SanNone \<Rightarrow> False)"

definition sanitize :: "'v params \<Rightarrow> 'v sanitizers \<Rightarrow> exn + (string \<times> 'v) list" where
  "sanitize params sanitizers =
     (if params_truthy params then Inr []
      else if \<not> sanitizers_callable sanitizers then Inl (TypeError ''Sanitizer is not callable'')
      else (case params of
              ParamsTuple t \<Rightarrow> sanitize_items sanitizers (dict_of t) []
            | ParamsDict d \<Rightarrow> sanitize_items sanitizers d []
            | ParamsNone \<Rightarrow> Inl (AttributeError ''NoneType'' ''items'')))"

section \<open>\<^verbatim>\<open>models/db_model.py\<close>: the validated configuration\<close>

text \<open>
  What \<^verbatim>\<open>model_dump()\<close> gives for the three models. A field typed \<^verbatim>\<open>T | None\<close> is
  an option.
\<close>

record connection_params_cfg =
  driver :: "string option"
  host :: "string option"
  port :: "int option"
  username :: "string option"
  password :: "string option"
  options :: "(string \<times> string) list option"

record paging_cfg =
  enabled :: "bool option"
  page_size :: "int option"
  min_page_size :: "int option"

record database_cfg =
  description :: "string option"
  default_db :: "bool option"
  dialect :: string
  use_odbc :: "bool option"
  uri :: "string option"
  connection_params :: "connection_params_cfg option"
  auto_commit :: "bool option"
  path :: "string option"
  paging :: "paging_cfg option"
  fetch_return :: string


datatype db_model = DatabaseModel database_cfg | MultiDatabaseModel "(string \<times> database_cfg) list"

text \<open>\<^verbatim>\<open>get_default_db_config\<close> of \<^verbatim>\<open>database/db_utils.py\<close>.\<close>

fun default_db_from ::
  "(string \<times> database_cfg) list \<Rightarrow> (string \<times> database_cfg) list \<Rightarrow> database_cfg option" where
  "default_db_from config [] = None"
| "default_db_from config ((db_name, cfg) # items) =
     (if default_db cfg = Some True then map_of config db_name
      else default_db_from config items)"

definition get_default_db_config :: "(string \<times> database_cfg) list \<Rightarrow> database_cfg option" where
  "get_default_db_config config = default_db_from config config"

subsection \<open>Validation\<close>


fun type_name :: "pyval \<Rightarrow> string" where
  "type_name PNone = ''NoneType''"
| "type_name (PBool b) = ''bool''"
| "type_name (PInt i) = ''int''"
| "type_name (PStr s) = ''str''"
| "type_name (PDict d) = ''dict''"

fun is_dict :: "pyval \<Rightarrow> bool" where
  "is_dict (PDict d) = True"
| "is_dict _ = False"

text \<open>\<^verbatim>\<open>obj.get(key, default)\<close>, which only a dictionary has.\<close>

definition py_get :: "pyval \<Rightarrow> string \<Rightarrow> pyval \<Rightarrow> exn + pyval" where
  "py_get obj key dflt =
     (case obj of
        PDict d \<Rightarrow> Inr (case map_of d key of Some v \<Rightarrow> v | None \<Rightarrow> dflt)
      | _ \<Rightarrow> Inl (AttributeError (type_name obj) ''get''))"

















section \<open>\<^verbatim>\<open>database/db_core.py\<close>\<close>

text \<open>
  Calls into the database library act on a world \<open>'w\<close> outside the program: a
  computation takes the state and gives a raised exception or a value, with the new state.
\<close>

type_synonym ('a, 's) io = "'s \<Rightarrow> (exn + 'a) \<times> 's"

definition io_return :: "'a \<Rightarrow> ('a, 's) io" where
  "io_return x = (\<lambda>s. (Inr x, s))"

definition io_raise :: "exn \<Rightarrow> ('a, 's) io" where
  "io_raise e = (\<lambda>s. (Inl e, s))"

definition io_result :: "exn + 'a \<Rightarrow> ('a, 's) io" where
  "io_result r = (\<lambda>s. (r, s))"

definition io_bind :: "('a, 's) io \<Rightarrow> ('a \<Rightarrow> ('b, 's) io) \<Rightarrow> ('b, 's) io" where
  "io_bind m f = (\<lambda>s. case m s of (Inl e, s') \<Rightarrow> (Inl e, s') | (Inr x, s') \<Rightarrow> f x s')"

text \<open>A method works on the instance and the world; a library call only on the world.\<close>

definition on_world :: "('a, 'w) io \<Rightarrow> ('a, 'i \<times> 'w) io" where
  "on_world m = (\<lambda>(self, w). case m w of (r, w') \<Rightarrow> (r, (self, w')))"

definition get_self :: "('i, 'i \<times> 'w) io" where
  "get_self = (\<lambda>(self, w). (Inr self, (self, w)))"

definition set_self :: "('i \<Rightarrow> 'i) \<Rightarrow> (unit, 'i \<times> 'w) io" where
  "set_self f = (\<lambda>(self, w). (Inr (), (f self, w)))"

text \<open>
  The query a method passes on is a string, or the \<^verbatim>\<open>ValueError\<close> object that
  \<^verbatim>\<open>page\<close> returns. What \<^verbatim>\<open>_execute_query\<close> returns is the processed data, the
  result object, the pair of both, whatever the success handler gives, or whatever the
  error handler gives.
\<close>

datatype qval = QStr string | QErr exn

datatype ('r, 'd) ret =
    RData 'd
  | RObject "'r option"
  | RTuple 'd "'r option"
  | RMessage string
  | RErr exn

text \<open>
  The instance: the attributes \<^verbatim>\<open>__init__\<close> sets from the keys of the active
  configuration (the fields of \<open>database_cfg\<close>) and its own. \<open>result_object\<close> is
  \<open>None\<close> while the instance has no attribute of that name.
\<close>

record ('c, 'r, 'd, 'v, 'w) inst = database_cfg +
  config_active :: database_cfg
  inst_name :: "string option"
  connection :: "'c option"
  result_obj :: "'r option"
  result_object :: "'r option option"
  inst_page_size :: "int option"
  execution_handler :: "(qval \<Rightarrow> 'v params \<Rightarrow> pyval \<Rightarrow> ('r option, 'w) io) option"
  data_processors :: "'d callable list"
  success_handler_attr :: "(qval \<Rightarrow> (('r, 'd) ret, 'w) io) option"
  inst_options :: "(string \<times> string) list option"
  registered_methods :: "string list"

text \<open>
  What a subclass and the database library provide: \<^verbatim>\<open>connect\<close>, the connection's
  \<^verbatim>\<open>execute\<close> (on \<^verbatim>\<open>text(query)\<close>) and \<^verbatim>\<open>commit\<close>, the result object's fetch
  methods, and \<^verbatim>\<open>error_handler\<close>.
\<close>

record ('c, 'r, 'd, 'v, 'w) env =
  connect :: "('c option, 'w) io"
  conn_execute :: "'c \<Rightarrow> qval \<Rightarrow> 'v params \<Rightarrow> ('r option, 'w) io"
  conn_commit :: "'c \<Rightarrow> (unit, 'w) io"
  fetchall :: "'r \<Rightarrow> ('d, 'w) io"
  fetchone :: "'r \<Rightarrow> ('d, 'w) io"
  fetchmany :: "'r \<Rightarrow> int \<Rightarrow> ('d, 'w) io"
  error_handler :: "exn \<Rightarrow> (('r, 'd) ret, 'w) io"


subsection \<open>\<^verbatim>\<open>__init__\<close>\<close>

text \<open>
  The choice of the active configuration. \<^verbatim>\<open>next(iter(_config.items()))\<close> gives a
  key-value pair, not a configuration.
\<close>

datatype selected = SelConfig database_cfg | SelItem string database_cfg

definition lookup_config :: "(string \<times> database_cfg) list \<Rightarrow> string \<Rightarrow> exn + selected" where
  "lookup_config config key =
     (case map_of config key of
        None \<Rightarrow> Inl (KeyError ''An invalid database name was supplied'')
      | Some cfg \<Rightarrow> Inr (SelConfig cfg))"

definition select_config ::
  "db_model \<Rightarrow> string option \<Rightarrow> database_cfg option \<Rightarrow> string option \<Rightarrow> exn + selected" where
  "select_config model name default_config default_config_name =
     (case model of
        DatabaseModel cfg \<Rightarrow> Inr (SelConfig cfg)
      | MultiDatabaseModel config \<Rightarrow>
          if name \<noteq> None then lookup_config config ''name''
          else if get_default_db_config config \<noteq> None
            then Inr (SelConfig (the (get_default_db_config config)))
          else if default_config \<noteq> None then Inr (SelConfig (the default_config))
          else if default_config_name \<noteq> None then lookup_config config (the default_config_name)
          else (case config of
                  [] \<Rightarrow> Inl StopIteration
                | (db_name, cfg) # _ \<Rightarrow> Inr (SelItem db_name cfg)))"

text \<open>\<^verbatim>\<open>register_instance_methods\<close>: each method with whether it is callable.\<close>

fun register_instance_methods :: "(string \<times> bool) list \<Rightarrow> exn + string list" where
  "register_instance_methods [] = Inr []"
| "register_instance_methods ((name, method_callable) # methods) =
     (if method_callable
      then (case register_instance_methods methods of
              Inl e \<Rightarrow> Inl e
            | Inr names \<Rightarrow> Inr (name # names))
      else Inl (TypeError (name @ '' is not callable'')))"

definition init ::
  "db_model \<Rightarrow> string option \<Rightarrow> database_cfg option \<Rightarrow> string option
     \<Rightarrow> (string \<times> bool) list option \<Rightarrow> exn + ('c, 'r, 'd, 'v, 'w) inst" where
  "init model name default_config default_config_name methods =
     (case select_config model name default_config default_config_name of
        Inl e \<Rightarrow> Inl e
      | Inr (SelItem db_name cfg) \<Rightarrow> Inl (AttributeError ''tuple'' ''items'')
      | Inr (SelConfig cfg) \<Rightarrow>
          (case paging cfg of
             None \<Rightarrow> Inl (AttributeError ''NoneType'' ''get'')
           | Some pg \<Rightarrow>
               (case (case methods of None \<Rightarrow> Inr [] | Some ms \<Rightarrow> register_instance_methods ms) of
                  Inl e \<Rightarrow> Inl e
                | Inr names \<Rightarrow>
                    Inr (database_cfg.extend cfg
                      (inst.fields cfg name None None None (page_size pg) None [] None
                         (case connection_params cfg of None \<Rightarrow> Some [] | Some cp \<Rightarrow> options cp)
                         names)))))"

subsection \<open>Paging\<close>

definition paging_error :: string where
  "paging_error = ''Paging is enabled but page_size is missing or set to 0''"

text \<open>How an f-string renders \<^verbatim>\<open>page_size\<close>, an \<^verbatim>\<open>int\<close> or \<^verbatim>\<open>None\<close>.\<close>

fun str_opt_int :: "int option \<Rightarrow> string" where
  "str_opt_int None = ''None''"
| "str_opt_int (Some i) = str_int i"

fun opt_int_truthy :: "int option \<Rightarrow> bool" where
  "opt_int_truthy None = False"
| "opt_int_truthy (Some i) = (i \<noteq> 0)"

definition page ::
  "('c, 'r, 'd, 'v, 'w) inst \<Rightarrow> string \<Rightarrow> int \<Rightarrow> int option \<Rightarrow> exn + qval" where
  "page self query0 offset page_size_arg =
     (let query = strip query0 in
      if has_paging query then Inr (QStr query)
      else
        let resolved = (if opt_int_truthy page_size_arg then page_size_arg else inst_page_size self) in
        if resolved = Some 0 then Inr (QErr (ValueError paging_error))
        else if dialect self \<in> set [''mysql'', ''postgres'', ''sqlite'']
          then Inr (QStr (query @ '' LIMIT '' @ str_opt_int resolved @ '' OFFSET '' @ str_int offset))
        else if dialect self \<in> set [''sql server'', ''oracle'']
          then Inr (QStr (query @ '' OFFSET '' @ str_int offset @ '' ROWS FETCH NEXT ''
                           @ str_opt_int resolved @ '' ROWS ONLY''))
        else Inl (ValueError ''Unsupported database dialect for paging.''))"

definition offset_query ::
  "('c, 'r, 'd, 'v, 'w) inst \<Rightarrow> string \<Rightarrow> int \<Rightarrow> exn + qval" where
  "offset_query self query offset =
     (if dialect self \<in> set [''mysql'', ''postgres'', ''sqlite'']
        then Inr (QStr (query @ '' LIMIT ALL OFFSET '' @ str_int offset))
      else if dialect self \<in> set [''sql server'', ''oracle'']
        then Inr (QStr (query @ '' OFFSET '' @ str_int offset @ '' ROWS FETCH NEXT ALL ROWS ONLY''))
      else Inl (ValueError ''Unsupported database dialect for paging.''))"

subsection \<open>Fetching and post-processing\<close>

definition invalid_fetch :: string where
  "invalid_fetch = ''Fetch value must be an int. Use 0 for all rows''"

text \<open>
  \<^verbatim>\<open>fetch\<close>. A result object that was passed in is used as it is (the library's result
  objects are never false); otherwise the attribute \<^verbatim>\<open>result_object\<close> is read, which
  fails when the instance has none.
\<close>

definition fetch ::
  "('c, 'r, 'd, 'v, 'w) env \<Rightarrow> ('c, 'r, 'd, 'v, 'w) inst \<Rightarrow> 'r option \<Rightarrow> pyval \<Rightarrow> ('d, 'w) io" where
  "fetch env self result0 fetch_arg =
     (case (case result0 of
              Some r \<Rightarrow> Inr (Some r)
            | None \<Rightarrow> (case result_object self of
                         None \<Rightarrow> Inl (AttributeError ''BaseDatabaseConnection'' ''result_object'')
                       | Some stored \<Rightarrow> Inr stored)) of
        Inl e \<Rightarrow> io_raise e
      | Inr None \<Rightarrow> io_raise (ValueError ''No valid result object found.'')
      | Inr (Some result) \<Rightarrow>
          (case int_of fetch_arg of
             None \<Rightarrow> io_raise (ValueError invalid_fetch)
           | Some n \<Rightarrow>
               if n = 0 then fetchall env result
               else if n = 1 then fetchone env result
               else fetchmany env result n))"

definition process_data :: "('c, 'r, 'd, 'v, 'w) inst \<Rightarrow> 'd \<Rightarrow> exn + 'd" where
  "process_data self data =
     (if data_processors self \<noteq> [] then call_each (data_processors self) data else Inr data)"

definition commit :: "('c, 'r, 'd, 'v, 'w) env \<Rightarrow> (unit, ('c, 'r, 'd, 'v, 'w) inst \<times> 'w) io" where
  "commit env = io_bind get_self (\<lambda>self.
     case connection self of
       None \<Rightarrow> io_return ()
     | Some c \<Rightarrow> on_world (conn_commit env c))"

subsection \<open>\<^verbatim>\<open>_execute_query\<close>\<close>

text \<open>The statements inside \<^verbatim>\<open>try\<close>.\<close>

definition execute_query_try ::
  "('c, 'r, 'd, 'v, 'w) env \<Rightarrow> string \<Rightarrow> 'v params \<Rightarrow> pyval \<Rightarrow> int \<Rightarrow> int option \<Rightarrow> 'v sanitizers
     \<Rightarrow> (('r, 'd) ret, ('c, 'r, 'd, 'v, 'w) inst \<times> 'w) io" where
  "execute_query_try env query0 params fetch_arg offset page_size_arg sanitizers =
     io_bind get_self (\<lambda>self0.
     io_bind (if connection self0 = None
              then io_bind (on_world (connect env)) (\<lambda>c. set_self (\<lambda>s. s\<lparr>connection := c\<rparr>))
              else io_return ()) (\<lambda>_.
     io_bind (io_result
       (if sanitizers_truthy sanitizers
        then (case sanitize params sanitizers of Inl e \<Rightarrow> Inl e | Inr d \<Rightarrow> Inr (ParamsDict d))
        else Inr params)) (\<lambda>params'.
     io_bind get_self (\<lambda>self.
     io_bind (io_result
       (if page_size_arg \<noteq> None then page self query0 offset page_size_arg
        else (case paging self of
                None \<Rightarrow> Inl (AttributeError ''NoneType'' ''get'')
              | Some pg \<Rightarrow>
                  if enabled pg = Some True then page self query0 offset page_size_arg
                  else if offset > 0 then offset_query self query0 offset
                  else Inr (QStr query0)))) (\<lambda>query.
     io_bind (case execution_handler self of
                Some handler \<Rightarrow> on_world (handler query params' fetch_arg)
              | None \<Rightarrow>
                  (case connection self of
                     None \<Rightarrow> io_raise (AttributeError ''NoneType'' ''execute'')
                   | Some c \<Rightarrow> on_world (conn_execute env c query params'))) (\<lambda>result_obj.
     io_bind (set_self (\<lambda>s. s\<lparr>result_object := Some result_obj\<rparr>)) (\<lambda>_.
     io_bind (io_result
       (case query of
          QStr q \<Rightarrow> Inr (is_data_manipulation_query q)
        | QErr e \<Rightarrow> Inl (AttributeError ''ValueError'' ''strip''))) (\<lambda>data_manipulation.
     io_bind get_self (\<lambda>self'.
       if \<not> data_manipulation then
         io_bind (on_world (fetch env self' result_obj fetch_arg)) (\<lambda>data.
           if int_of fetch_arg \<noteq> Some 0 \<and> fetch_return self' = ''object''
             then io_return (RObject result_obj)
           else if int_of fetch_arg \<noteq> Some 0 \<and> fetch_return self' = ''tuple''
             then io_bind (io_result (process_data self' data)) (\<lambda>d. io_return (RTuple d result_obj))
           else io_bind (io_result (process_data self' data)) (\<lambda>d. io_return (RData d)))
       else
         io_bind (if auto_commit self' = Some True then commit env else io_return ()) (\<lambda>_.
           case success_handler_attr self' of
             None \<Rightarrow> io_raise (TypeError ''NoneType object is not callable'')
           | Some handler \<Rightarrow> on_world (handler query)))))))))))"


subsection \<open>\<^verbatim>\<open>execute_sp\<close>\<close>




section \<open>Example values\<close>

text \<open>A validated single-database configuration of a given dialect, with paging off.\<close>

definition example_cfg :: "string \<Rightarrow> database_cfg" where
  "example_cfg d =
     \<lparr>description = None, default_db = Some False, dialect = d, use_odbc = Some False,
      uri = Some ''db://localhost/app'', connection_params = None, auto_commit = Some False,
      path = None,
      paging = Some \<lparr>enabled = Some False, page_size = Some 0, min_page_size = Some 0\<rparr>,
      fetch_return = ''data''\<rparr>"

text \<open>The instance \<^verbatim>\<open>__init__\<close> builds from it.\<close>

definition example_inst :: "string \<Rightarrow> ('c, 'r, 'd, 'v, 'w) inst" where
  "example_inst d =
     database_cfg.extend (example_cfg d)
       (inst.fields (example_cfg d) None None None None (Some 0) None [] None (Some []) [])"



section \<open>Characters, \<^verbatim>\<open>strip\<close> and the matcher\<close>

lemma is_digit_not_space: "is_digit c \<Longrightarrow> \<not> is_space c"
  by (auto simp: is_digit_def is_space_def)

lemma is_digit_is_word: "is_digit c \<Longrightarrow> is_word c"
  by (auto simp: is_digit_def is_word_def)

lemma digit_char_is_digit: "n < 10 \<Longrightarrow> is_digit (digit_char n)"
  unfolding is_digit_def digit_char_def by (rule nth_mem) simp

lemma digits_of_digits: "(\<forall>c \<in> set (digits_of n). is_digit c) \<and> digits_of n \<noteq> []"
proof (induction n rule: digits_of.induct)
  case (1 n)
  show ?case
  proof (cases "n < 10")
    case True
    then show ?thesis by (subst (1 2) digits_of.simps) (simp add: digit_char_is_digit)
  next
    case False
    with "1" show ?thesis
      by (subst (1 2) digits_of.simps) (simp add: digit_char_is_digit)
  qed
qed

lemma last_dropWhile: "dropWhile P xs \<noteq> [] \<Longrightarrow> last (dropWhile P xs) = last xs"
  by (induction xs) (auto split: if_splits)

lemma strip_fixed:
  assumes "s \<noteq> []" "\<not> is_space (hd s)" "\<not> is_space (last s)"
  shows "strip s = s"
proof -
  from assms have a: "dropWhile is_space s = s" by (cases s) auto
  from assms have "rev s \<noteq> []" "\<not> is_space (hd (rev s))" by (simp_all add: hd_rev)
  then have "dropWhile is_space (rev s) = rev s" by (cases "rev s") auto
  with a show ?thesis by (simp add: strip_def)
qed

lemma strip_hd: "strip q \<noteq> [] \<Longrightarrow> \<not> is_space (hd (strip q))"
proof -
  assume ne: "strip q \<noteq> []"
  let ?t = "dropWhile is_space q"
  let ?u = "dropWhile is_space (rev ?t)"
  from ne have u: "?u \<noteq> []" by (simp add: strip_def)
  have t: "?t \<noteq> []"
  proof
    assume "?t = []"
    with u show False by simp
  qed
  have "hd (strip q) = last ?u" by (simp add: strip_def hd_rev)
  also have "\<dots> = last (rev ?t)" using u by (rule last_dropWhile)
  also have "\<dots> = hd ?t" using t by (simp add: last_rev)
  finally show ?thesis using t hd_dropWhile[of is_space q] by simp
qed

lemma strip_last: "strip q \<noteq> [] \<Longrightarrow> \<not> is_space (last (strip q))"
proof -
  assume ne: "strip q \<noteq> []"
  let ?u = "dropWhile is_space (rev (dropWhile is_space q))"
  from ne have u: "?u \<noteq> []" by (simp add: strip_def)
  have "last (strip q) = hd ?u" by (simp add: strip_def last_rev)
  then show ?thesis using u hd_dropWhile[of is_space "rev (dropWhile is_space q)"] by simp
qed

lemma strip_strip: "strip (strip q) = strip q"
proof (cases "strip q = []")
  case True
  have "strip [] = []" by (simp add: strip_def)
  with True show ?thesis by simp
next
  case False
  then show ?thesis by (intro strip_fixed strip_hd strip_last)
qed

lemma search_from_here: "rmatch r (p, s) \<noteq> [] \<Longrightarrow> search_from r p s"
  by (cases s) auto

lemma search_from_append:
  "rmatch r (if pre = [] then p else Some (last pre), suf) \<noteq> [] \<Longrightarrow> search_from r p (pre @ suf)"
proof (induction pre arbitrary: p)
  case Nil
  then show ?case by (simp add: search_from_here)
next
  case (Cons c cs)
  have "rmatch r (if cs = [] then Some c else Some (last cs), suf) \<noteq> []"
    using Cons.prems by (auto split: if_splits)
  then have "search_from r (Some c) (cs @ suf)" by (rule Cons.IH)
  then show ?case by simp
qed

lemma star_iter_self: "st \<in> set (star_iter n f st)"
  by (cases n) auto

lemma star_iter_run:
  assumes f: "\<And>p d r. P d \<Longrightarrow> f (p, d # r) = [(Some d, r)]"
  shows "\<forall>c \<in> set ds. P c \<Longrightarrow> length (ds @ rest) \<le> n \<Longrightarrow>
   (if ds = [] then p else Some (last ds), rest) \<in> set (star_iter n f (p, ds @ rest))"
proof (induction ds arbitrary: p n)
  case Nil
  then show ?case by (simp add: star_iter_self)
next
  case (Cons d ds)
  then obtain m where n: "n = Suc m" by (cases n) auto
  from Cons.prems n have "length (ds @ rest) \<le> m" by simp
  with Cons.prems have
    "(if ds = [] then Some d else Some (last ds), rest) \<in> set (star_iter m f (Some d, ds @ rest))"
    by (intro Cons.IH) auto
  moreover have "f (p, d # ds @ rest) = [(Some d, ds @ rest)]"
    using Cons.prems by (intro f) simp
  ultimately show ?case using n by auto
qed

lemma rmatch_Cls_Cons: "in_cls k d \<Longrightarrow> rmatch (Cls k) (p, d # r) = [(Some d, r)]"
  by simp

lemma many1_cls_run:
  assumes "ds \<noteq> []" "\<forall>c \<in> set ds. in_cls k c"
  shows "(Some (last ds), rest) \<in> set (rmatch (many1 (Cls k)) (p, ds @ rest))"
proof -
  from assms obtain d ds' where ds: "ds = d # ds'" by (cases ds) auto
  with assms have d: "in_cls k d" and ds': "\<forall>c \<in> set ds'. in_cls k c" by auto
  have run: "(if ds' = [] then Some d else Some (last ds'), rest)
       \<in> set (star_iter (length (ds' @ rest)) (rmatch (Cls k)) (Some d, ds' @ rest))"
    using ds' by (intro star_iter_run[where P = "in_cls k"] rmatch_Cls_Cons) auto
  have "rmatch (many1 (Cls k)) (p, ds @ rest)
      = star_iter (length (ds' @ rest)) (rmatch (Cls k)) (Some d, ds' @ rest)"
    unfolding many1_def ds rmatch.simps(5) append_Cons rmatch_Cls_Cons[OF d]
    by (simp only: list.map concat.simps append_Nil2 rmatch.simps(8) snd_conv)
  moreover have "Some (last ds) = (if ds' = [] then Some d else Some (last ds'))"
    by (simp add: ds)
  ultimately show ?thesis using run by (simp only:)
qed

lemma rmatch_lit: "rmatch (lit s) (p, s @ rest) = [(if s = [] then p else Some (last s), rest)]"
  by (induction s arbitrary: p) (auto simp: lit_def)

lemma rmatch_seqs_Cons:
  "st' \<in> set (rmatch r st) \<Longrightarrow> rmatch (seqs rs) st' \<noteq> [] \<Longrightarrow> rmatch (seqs (r # rs)) st \<noteq> []"
  by (auto simp: seqs_def)

lemma rmatch_seqs_Nil: "rmatch (seqs []) st \<noteq> []"
  by (simp add: seqs_def)

lemma space_is_space: "is_space CHR '' '' \<and> \<not> is_word CHR '' ''"
  by (simp add: is_space_def is_word_def)

lemma has_paging_limit:
  assumes ds: "ds \<noteq> []" "\<forall>c \<in> set ds. is_digit c"
  shows "has_paging (pre @ '' LIMIT '' @ ds @ '' OFFSET '' @ rest)"
proof -
  let ?tail = "'' OFFSET '' @ rest"
  have b1: "(Some CHR '' '', ''LIMIT'' @ '' '' @ ds @ ?tail)
      \<in> set (rmatch WordB (Some CHR '' '', ''LIMIT'' @ '' '' @ ds @ ?tail))"
    by (simp add: at_boundary_def is_word_def)
  have b2: "(Some CHR ''T'', '' '' @ ds @ ?tail)
      \<in> set (rmatch (lit ''LIMIT'') (Some CHR '' '', ''LIMIT'' @ '' '' @ ds @ ?tail))"
    by (simp only: rmatch_lit) simp
  have b3: "(Some CHR '' '', ds @ ?tail)
      \<in> set (rmatch (many1 (Cls Space)) (Some CHR ''T'', '' '' @ ds @ ?tail))"
    using many1_cls_run[of "'' ''" Space "ds @ ?tail" "Some CHR ''T''"]
    by (simp add: space_is_space)
  have b4: "(Some (last ds), ?tail) \<in> set (rmatch (many1 (Cls Digit)) (Some CHR '' '', ds @ ?tail))"
    using ds by (intro many1_cls_run) auto
  have "is_word (last ds)" using ds by (simp add: is_digit_is_word)
  then have b5: "(Some (last ds), ?tail) \<in> set (rmatch WordB (Some (last ds), ?tail))"
    by (simp add: at_boundary_def space_is_space)
  have b6: "(Some (last ds), ?tail) \<in> set (rmatch (Opt x) (Some (last ds), ?tail))" for x
    by simp
  have "rmatch pat_limit_pg (Some CHR '' '', ''LIMIT'' @ '' '' @ ds @ ?tail) \<noteq> []"
    unfolding pat_limit_pg_def
    by (intro rmatch_seqs_Cons[OF b1] rmatch_seqs_Cons[OF b2] rmatch_seqs_Cons[OF b3]
        rmatch_seqs_Cons[OF b4] rmatch_seqs_Cons[OF b5] rmatch_seqs_Cons[OF b6] rmatch_seqs_Nil)
  then have "search_from pat_limit_pg None ((pre @ '' '') @ (''LIMIT'' @ '' '' @ ds @ ?tail))"
    by (intro search_from_append) simp
  then have "re_search pat_limit_pg (pre @ '' LIMIT '' @ ds @ ?tail)"
    by (simp add: re_search_def)
  then show ?thesis by (simp add: has_paging_def paging_patterns_def)
qed

section \<open>Parameter sanitization\<close>

lemma sanitize_truthy_params: "params_truthy params \<Longrightarrow> sanitize params sanitizers = Inr []"
  by (simp add: sanitize_def)

text \<open>
  C1. For a non-empty \<^verbatim>\<open>params\<close> and a callable sanitizer, \<^verbatim>\<open>sanitize\<close> should return
  a dictionary with the keys of \<^verbatim>\<open>params\<close> and the sanitized values. The guard
  \<^verbatim>\<open>if params: return {}\<close> is inverted: for the one-entry dictionary
  \<^verbatim>\<open>{"name": " bob "}\<close> and the sanitizer \<^verbatim>\<open>str.strip\<close> the result is the empty
  dictionary, not \<^verbatim>\<open>{"name": "bob"}\<close>.
\<close>

theorem sanitize_nonempty_returns_empty:
  "sanitize (ParamsDict [(''name'', '' bob '')]) (SanOne (Fn (\<lambda>v. Inr (strip v)))) = Inr []"
  by (simp add: sanitize_def)

section \<open>Paging\<close>

lemma no_paging_users: "\<not> has_paging (strip ''SELECT * FROM users'')"
  by code_simp

lemma page_appends_clause:
  assumes "\<not> has_paging (strip query)" "n \<noteq> 0"
  shows "dialect self \<in> {''mysql'', ''sqlite''} \<Longrightarrow>
           page self query offset (Some n)
             = Inr (QStr (strip query @ '' LIMIT '' @ str_int n @ '' OFFSET '' @ str_int offset))"
    and "dialect self = ''oracle'' \<Longrightarrow>
           page self query offset (Some n)
             = Inr (QStr (strip query @ '' OFFSET '' @ str_int offset @ '' ROWS FETCH NEXT ''
                          @ str_int n @ '' ROWS ONLY''))"
  using assms by (auto simp: page_def)

text \<open>
  C2. For a dialect the schema accepts and a query without a paging clause,
  \<^verbatim>\<open>page\<close> should append the paging clause of the dialect and never raise the
  unsupported-dialect error. The method compares the dialect with \<^verbatim>\<open>"postgres"\<close> and
  \<^verbatim>\<open>"sql server"\<close>, which the schema never yields: for \<^verbatim>\<open>postgresql\<close>,
  \<^verbatim>\<open>mssql\<close> and \<^verbatim>\<open>mariadb\<close> it raises \<^verbatim>\<open>ValueError\<close>.
\<close>

theorem page_schema_dialects_unsupported:
  "page (self\<lparr>dialect := ''postgresql''\<rparr>) ''SELECT * FROM users'' 0 (Some 10)
     = Inl (ValueError ''Unsupported database dialect for paging.'')
   \<and> page (self\<lparr>dialect := ''mssql''\<rparr>) ''SELECT * FROM users'' 0 (Some 10)
     = Inl (ValueError ''Unsupported database dialect for paging.'')
   \<and> page (self\<lparr>dialect := ''mariadb''\<rparr>) ''SELECT * FROM users'' 0 (Some 10)
     = Inl (ValueError ''Unsupported database dialect for paging.'')"
  by (simp add: page_def no_paging_users)

text \<open>
  C10. For a query without a paging clause, when the \<^verbatim>\<open>page_size\<close> argument is
  \<^verbatim>\<open>None\<close> or 0 and the page size of the instance is 0, \<^verbatim>\<open>page\<close> returns a
  \<^verbatim>\<open>ValueError\<close> object as its value and raises nothing.
\<close>

theorem page_returns_value_error_object:
  "\<not> has_paging (strip query) \<Longrightarrow> page_size_arg = None \<or> page_size_arg = Some 0 \<Longrightarrow>
   inst_page_size self = Some 0 \<Longrightarrow>
   page self query offset page_size_arg = Inr (QErr (ValueError paging_error))"
  by (auto simp: page_def)

theorem page_returns_value_error_object_witness:
  "\<not> has_paging (strip ''SELECT * FROM users'')
   \<and> inst_page_size (example_inst ''mysql'' :: (unit, unit, unit, unit, unit) inst) = Some 0
   \<and> page (example_inst ''mysql'' :: (unit, unit, unit, unit, unit) inst) ''SELECT * FROM users'' 0 None
       = Inr (QErr (ValueError paging_error))"
proof -
  have s: "inst_page_size (example_inst ''mysql'' :: (unit, unit, unit, unit, unit) inst) = Some 0"
    by (simp add: example_inst_def inst.defs database_cfg.defs)
  show ?thesis
    using page_returns_value_error_object [OF no_paging_users _ s, of None 0] no_paging_users s
    by simp
qed

section \<open>Construction\<close>

lemma init_example: "init (DatabaseModel (example_cfg d)) None None None None = Inr (example_inst d)"
  by (simp add: init_def select_config_def example_cfg_def example_inst_def)

lemma init_result_object:
  "init model name dc dcn ms = Inr self \<Longrightarrow> result_object self = None \<and> success_handler_attr self = None"
  by (auto simp: init_def inst.defs database_cfg.defs split: sum.splits selected.splits option.splits)

text \<open>
  C4. With a multi-database configuration and a name, the active configuration should be
  the entry stored under that name, and \<^verbatim>\<open>KeyError\<close> is for a name with no entry. The
  constructor looks up the literal key \<^verbatim>\<open>"name"\<close> instead of the argument: asked for the
  existing entry \<^verbatim>\<open>reports\<close> it raises \<^verbatim>\<open>KeyError\<close>.
\<close>

theorem init_named_database_key_error:
  "init (MultiDatabaseModel [(''main'', example_cfg ''mysql''), (''reports'', example_cfg ''sqlite'')])
        (Some ''reports'') None None None
     = Inl (KeyError ''An invalid database name was supplied'')"
  by (simp add: init_def select_config_def lookup_config_def)

lemma default_db_from_find:
  "distinct (map fst config) \<Longrightarrow> set items \<subseteq> set config \<Longrightarrow>
   default_db_from config items = map_option snd (find (\<lambda>(n, c). default_db c = Some True) items)"
proof (induction items)
  case Nil
  then show ?case by simp
next
  case (Cons item items)
  obtain n c where item: "item = (n, c)" by (cases item)
  with Cons.prems have "map_of config n = Some c" by (intro map_of_is_SomeI) auto
  with Cons item show ?case by simp
qed

lemma get_default_db_config_first:
  "distinct (map fst config) \<Longrightarrow>
   get_default_db_config config = map_option snd (find (\<lambda>(n, c). default_db c = Some True) config)"
  by (simp add: get_default_db_config_def default_db_from_find)

lemma init_default_entry:
  "get_default_db_config config = Some cfg \<Longrightarrow>
   init (MultiDatabaseModel config) None dc dcn ms = Inr self \<Longrightarrow> config_active self = cfg"
  by (auto simp: init_def select_config_def inst.defs database_cfg.defs
      split: sum.splits selected.splits option.splits)

text \<open>
  C5. With a multi-database configuration, no name, no entry marked default and no
  class-level default, the first configuration of the document should become the active
  one, and the attributes be set from it. \<^verbatim>\<open>next(iter(_config.items()))\<close> yields the pair
  of the first key and its configuration, and reading \<^verbatim>\<open>.items()\<close> of that pair raises
  \<^verbatim>\<open>AttributeError\<close>.
\<close>

theorem init_first_entry_attribute_error:
  "select_config (MultiDatabaseModel [(''main'', example_cfg ''mysql''), (''reports'', example_cfg ''sqlite'')])
        None None None
     = Inr (SelItem ''main'' (example_cfg ''mysql''))
   \<and> init (MultiDatabaseModel [(''main'', example_cfg ''mysql''), (''reports'', example_cfg ''sqlite'')])
        None None None None
     = Inl (AttributeError ''tuple'' ''items'')"
  by (simp add: init_def select_config_def get_default_db_config_def example_cfg_def)

section \<open>Fetching\<close>

lemma fetch_dispatch:
  "fetch env self (Some r) (PInt n)
     = (if n = 0 then fetchall env r else if n = 1 then fetchone env r else fetchmany env r n)"
  by (simp add: fetch_def)

lemma fetch_not_int: "int_of v = None \<Longrightarrow> fetch env self (Some r) v = io_raise (ValueError invalid_fetch)"
  by (simp add: fetch_def)

lemma fetch_stored_none:
  "result_object self = Some None \<Longrightarrow>
   fetch env self None v = io_raise (ValueError ''No valid result object found.'')"
  by (simp add: fetch_def)

text \<open>
  C7. \<^verbatim>\<open>fetch\<close> should raise \<^verbatim>\<open>ValueError\<close> when no result object is passed and none
  is stored on the instance. The constructor initialises \<^verbatim>\<open>result_obj\<close>, while
  \<^verbatim>\<open>fetch\<close> reads \<^verbatim>\<open>result_object\<close>: on a new instance \<^verbatim>\<open>fetch()\<close> raises
  \<^verbatim>\<open>AttributeError\<close>.
\<close>

theorem fetch_fresh_instance_attribute_error:
  "(case init (DatabaseModel (example_cfg ''mysql'')) None None None None of
      Inl e \<Rightarrow> (Inl e, w)
    | Inr self \<Rightarrow> fetch env self None (PInt 0) w)
   = (Inl (AttributeError ''BaseDatabaseConnection'' ''result_object''), w)"
  by (simp add: init_example fetch_def example_inst_def inst.defs database_cfg.defs io_raise_def)

section \<open>Stored procedures\<close>


section \<open>Paging a query twice\<close>

lemma str_int_digits:
  "0 \<le> n \<Longrightarrow> str_int n \<noteq> [] \<and> (\<forall>c \<in> set (str_int n). is_digit c)"
  using digits_of_digits[of "nat n"] by (simp add: str_int_def)

lemma str_int_last: "str_int i \<noteq> [] \<and> is_digit (last (str_int i))"
proof -
  have "digits_of k \<noteq> [] \<and> is_digit (last (digits_of k))" for k
    using digits_of_digits[of k] by (meson last_in_set)
  then show ?thesis by (simp add: str_int_def)
qed

lemma page_limit_fixed:
  assumes q: "strip query \<noteq> []" and n: "0 < n"
  shows "strip (strip query @ '' LIMIT '' @ str_int n @ '' OFFSET '' @ str_int offset)
           = strip query @ '' LIMIT '' @ str_int n @ '' OFFSET '' @ str_int offset
         \<and> has_paging (strip query @ '' LIMIT '' @ str_int n @ '' OFFSET '' @ str_int offset)"
proof -
  define r where "r = strip query @ '' LIMIT '' @ str_int n @ '' OFFSET '' @ str_int offset"
  have d: "str_int n \<noteq> []" "\<forall>c \<in> set (str_int n). is_digit c"
    using str_int_digits[of n] n by auto
  have "r \<noteq> []" using q by (simp add: r_def)
  moreover have "hd r = hd (strip query)" using q by (simp add: r_def)
  moreover have "last r = last (str_int offset)"
    using str_int_last[of offset] by (simp add: r_def)
  ultimately have "strip r = r"
    using strip_hd[OF q] str_int_last[of offset] is_digit_not_space
    by (intro strip_fixed) auto
  moreover have "has_paging r"
    unfolding r_def using d by (rule has_paging_limit)
  ultimately show ?thesis by (simp add: r_def)
qed

text \<open>
  C9, as the code has it. When \<^verbatim>\<open>has_paging\<close> finds a paging clause in the stripped
  query, \<^verbatim>\<open>page\<close> returns the stripped query and nothing else. For the dialects
  \<^verbatim>\<open>mysql\<close> and \<^verbatim>\<open>sqlite\<close>, a positive \<^verbatim>\<open>page_size\<close> and a query that is not
  blank, paging the result of \<^verbatim>\<open>page\<close> again gives the same string.
\<close>

theorem page_keeps_paged_query_and_idempotent:
  "(has_paging (strip query) \<longrightarrow> page self query offset page_size_arg = Inr (QStr (strip query)))
   \<and> (dialect self \<in> {''mysql'', ''sqlite''} \<and> 0 < n \<and> strip query \<noteq> [] \<longrightarrow>
        (\<exists>r. page self query offset (Some n) = Inr (QStr r)
           \<and> page self r offset (Some n) = Inr (QStr r)))"
proof (intro conjI impI)
  assume "has_paging (strip query)"
  then show "page self query offset page_size_arg = Inr (QStr (strip query))"
    by (simp add: page_def)
next
  assume a: "dialect self \<in> {''mysql'', ''sqlite''} \<and> 0 < n \<and> strip query \<noteq> []"
  show "\<exists>r. page self query offset (Some n) = Inr (QStr r) \<and> page self r offset (Some n) = Inr (QStr r)"
  proof (cases "has_paging (strip query)")
    case True
    then have "page self query offset (Some n) = Inr (QStr (strip query))"
      by (simp add: page_def)
    moreover from True have "page self (strip query) offset (Some n) = Inr (QStr (strip query))"
      by (simp add: page_def strip_strip)
    ultimately show ?thesis by blast
  next
    case False
    let ?r = "strip query @ '' LIMIT '' @ str_int n @ '' OFFSET '' @ str_int offset"
    from a have fx: "strip ?r = ?r \<and> has_paging ?r" by (intro page_limit_fixed) auto
    from a False have "page self query offset (Some n) = Inr (QStr ?r)"
      by (auto simp: page_def)
    moreover from fx have "page self ?r offset (Some n) = Inr (QStr ?r)"
      by (simp add: page_def)
    ultimately show ?thesis by blast
  qed
qed

lemma paged_users: "has_paging (strip '' SELECT * FROM users LIMIT 5 '')"
  by code_simp

lemma strip_paged_users: "strip '' SELECT * FROM users LIMIT 5 '' = ''SELECT * FROM users LIMIT 5''"
  by code_simp

lemma strip_users: "strip ''SELECT * FROM users'' \<noteq> []"
  by code_simp

theorem page_keeps_paged_query_and_idempotent_witness:
  "has_paging (strip '' SELECT * FROM users LIMIT 5 '')
   \<and> page (example_inst ''sqlite'' :: (unit, unit, unit, unit, unit) inst)
        '' SELECT * FROM users LIMIT 5 '' 0 None = Inr (QStr ''SELECT * FROM users LIMIT 5'')
   \<and> strip ''SELECT * FROM users'' \<noteq> []
   \<and> (\<exists>r. page (example_inst ''sqlite'' :: (unit, unit, unit, unit, unit) inst)
              ''SELECT * FROM users'' 0 (Some 10) = Inr (QStr r)
          \<and> page (example_inst ''sqlite'' :: (unit, unit, unit, unit, unit) inst)
              r 0 (Some 10) = Inr (QStr r))"
proof -
  let ?self = "example_inst ''sqlite'' :: (unit, unit, unit, unit, unit) inst"
  have d: "dialect ?self \<in> {''mysql'', ''sqlite''} \<and> (0::int) < 10 \<and> strip ''SELECT * FROM users'' \<noteq> []"
    using strip_users by (simp add: example_inst_def example_cfg_def inst.defs database_cfg.defs)
  have "page ?self '' SELECT * FROM users LIMIT 5 '' 0 None
          = Inr (QStr (strip '' SELECT * FROM users LIMIT 5 ''))"
    using page_keeps_paged_query_and_idempotent
            [of "'' SELECT * FROM users LIMIT 5 ''" ?self 0 None] paged_users
    by blast
  then have a: "page ?self '' SELECT * FROM users LIMIT 5 '' 0 None
          = Inr (QStr ''SELECT * FROM users LIMIT 5'')"
    by (simp only: strip_paged_users)
  have b: "\<exists>r. page ?self ''SELECT * FROM users'' 0 (Some 10) = Inr (QStr r)
          \<and> page ?self r 0 (Some 10) = Inr (QStr r)"
    using page_keeps_paged_query_and_idempotent
            [of "''SELECT * FROM users''" ?self 0 None 10] d
    by blast
  show ?thesis using paged_users a strip_users b by blast
qed

text \<open>
  C9 as stated covers every query. A blank query is paged to a string that starts with a
  space, which the second call strips: the two results differ.
\<close>

lemma blank_facts:
  "\<not> has_paging [] \<and> strip [] = [] \<and> str_int 10 = ''10'' \<and> str_int 0 = ''0''
   \<and> strip '' LIMIT 10 OFFSET 0'' = ''LIMIT 10 OFFSET 0''
   \<and> has_paging ''LIMIT 10 OFFSET 0''"
  by code_simp

theorem page_blank_query_not_idempotent:
  "page (example_inst ''mysql'' :: (unit, unit, unit, unit, unit) inst) [] 0 (Some 10)
     = Inr (QStr '' LIMIT 10 OFFSET 0'')
   \<and> page (example_inst ''mysql'' :: (unit, unit, unit, unit, unit) inst) '' LIMIT 10 OFFSET 0'' 0 (Some 10)
     = Inr (QStr ''LIMIT 10 OFFSET 0'')"
  using blank_facts
  by (simp add: page_def example_inst_def example_cfg_def inst.defs database_cfg.defs)

section \<open>Query execution\<close>



lemma execute_query_try_page_raises:
  "connection self = Some c \<Longrightarrow> page self query offset (Some n) = Inl e \<Longrightarrow>
   execute_query_try env query params fetch_arg offset (Some n) SanNone (self, w) = (Inl e, (self, w))"
  by (simp add: execute_query_try_def io_bind_def get_self_def io_return_def io_result_def)




section \<open>Validation of a configuration\<close>



lemma py_get_is_dict: "is_dict obj \<Longrightarrow> \<exists>v. py_get obj key dflt = Inr v"
  by (cases obj) (simp_all add: py_get_def)
















end
